theory Spec2Isabelle
  imports Main "HOL-Library.AList"
begin

section \<open>JavaScript values of a webhook payload\<close>

text \<open>
  The request body is what the JSON (or urlencoded) body parser produced: a tree of
  objects, arrays, strings, numbers, booleans and null; a property that is absent reads
  as undefined. An object is the list of its own properties, with distinct keys, looked
  up by key.
  Numbers are modelled as mathematical integers: the model is exact for integral
  numbers below \<open>2 ^ 53\<close> in magnitude, and does not cover fractions or the rounding of
  IEEE doubles. Strings are lists of characters; only ASCII white space is recognised.
\<close>

datatype jsval =
    JUndefined
  | JNull
  | JBool bool
  | JNum int
  | JStr string
  | JArr "jsval list"
  | JObj "(string \<times> jsval) list"

datatype error =
    TypeError
  | SqliteConstraint

text \<open>Truthiness, as the operator \<open>||\<close> and \<open>if (...)\<close> judge a value.\<close>

fun truthy :: "jsval \<Rightarrow> bool" where
  "truthy JUndefined = False"
| "truthy JNull = False"
| "truthy (JBool b) = b"
| "truthy (JNum n) = (n \<noteq> 0)"
| "truthy (JStr s) = (s \<noteq> [])"
| "truthy (JArr xs) = True"
| "truthy (JObj kvs) = True"

text \<open>\<open>a || b\<close> on values whose evaluation cannot raise.\<close>

definition js_or :: "jsval \<Rightarrow> jsval \<Rightarrow> jsval" where
  "js_or a b = (if truthy a then a else b)"

text \<open>
  \<open>data.k\<close> for a body that is not undefined or null. None of the keys read by the
  handlers is a property of \<open>Object.prototype\<close> or \<open>Array.prototype\<close>, so a key
  that is not an own property of an object reads as undefined, and so does any of them on
  an array or a primitive.
\<close>

fun get_prop :: "jsval \<Rightarrow> string \<Rightarrow> jsval" where
  "get_prop (JObj kvs) k = (case map_of kvs k of Some v \<Rightarrow> v | None \<Rightarrow> JUndefined)"
| "get_prop v k = JUndefined"

subsection \<open>ToString\<close>

definition digit_chars :: string where
  "digit_chars = ''0123456789''"

fun string_of_nat :: "nat \<Rightarrow> string" where
  "string_of_nat n =
     (if n < 10 then [digit_chars ! n]
      else string_of_nat (n div 10) @ [digit_chars ! (n mod 10)])"

declare string_of_nat.simps [simp del]

definition string_of_int :: "int \<Rightarrow> string" where
  "string_of_int i = (if i < 0 then CHR ''-'' # string_of_nat (nat (- i)) else string_of_nat (nat i))"

text \<open>
  ToString of a value. A parsed object has no callable own property: when it has an own
  property \<open>toString\<close>, that one shadows \<open>Object.prototype.toString\<close>, the inherited
  \<open>valueOf\<close> returns the object itself, and the conversion raises a TypeError;
  otherwise the result is \<open>[object Object]\<close>. An array is joined with commas, null and
  undefined elements giving the empty string.
\<close>

fun to_string :: "jsval \<Rightarrow> error + string"
  and join_elems :: "jsval list \<Rightarrow> error + string" where
  "to_string JUndefined = Inr ''undefined''"
| "to_string JNull = Inr ''null''"
| "to_string (JBool b) = Inr (if b then ''true'' else ''false'')"
| "to_string (JNum n) = Inr (string_of_int n)"
| "to_string (JStr s) = Inr s"
| "to_string (JArr xs) = join_elems xs"
| "to_string (JObj kvs) =
     (if map_of kvs ''toString'' \<noteq> None then Inl TypeError else Inr ''[object Object]'')"
| "join_elems [] = Inr []"
| "join_elems (x # xs) =
     (case (if x = JUndefined \<or> x = JNull then Inr [] else to_string x) of
        Inl e \<Rightarrow> Inl e
      | Inr s \<Rightarrow>
          (if xs = [] then Inr s
           else (case join_elems xs of
                   Inl e \<Rightarrow> Inl e
                 | Inr r \<Rightarrow> Inr (s @ '','' @ r))))"

subsection \<open>parseInt\<close>

text \<open>
  \<open>parseInt(v)\<close> with no radix: ToString, skip leading white space, an optional sign, an
  optional \<open>0x\<close> prefix selecting radix 16, then the longest prefix of digits; no digit
  at all gives NaN, modelled as \<open>None\<close>.
\<close>

definition is_space :: "char \<Rightarrow> bool" where
  "is_space c = (c \<in> set [CHR '' '', CHR 0x09, CHR 0x0A, CHR 0x0B, CHR 0x0C, CHR 0x0D])"

definition digit_table :: "(char \<times> nat) list" where
  "digit_table =
     [(CHR ''0'', 0), (CHR ''1'', 1), (CHR ''2'', 2), (CHR ''3'', 3), (CHR ''4'', 4),
      (CHR ''5'', 5), (CHR ''6'', 6), (CHR ''7'', 7), (CHR ''8'', 8), (CHR ''9'', 9),
      (CHR ''a'', 10), (CHR ''b'', 11), (CHR ''c'', 12), (CHR ''d'', 13), (CHR ''e'', 14),
      (CHR ''f'', 15),
      (CHR ''A'', 10), (CHR ''B'', 11), (CHR ''C'', 12), (CHR ''D'', 13), (CHR ''E'', 14),
      (CHR ''F'', 15)]"

definition digit_val :: "nat \<Rightarrow> char \<Rightarrow> nat option" where
  "digit_val radix c =
     (case map_of digit_table c of
        Some d \<Rightarrow> (if d < radix then Some d else None)
      | None \<Rightarrow> None)"

fun parse_digits :: "nat \<Rightarrow> nat option \<Rightarrow> string \<Rightarrow> nat option" where
  "parse_digits radix acc [] = acc"
| "parse_digits radix acc (c # cs) =
     (case digit_val radix c of
        None \<Rightarrow> acc
      | Some d \<Rightarrow>
          parse_digits radix (Some ((case acc of None \<Rightarrow> 0 | Some a \<Rightarrow> a) * radix + d)) cs)"

definition strip_sign :: "string \<Rightarrow> bool \<times> string" where
  "strip_sign s =
     (case s of
        [] \<Rightarrow> (False, [])
      | c # cs \<Rightarrow>
          (if c = CHR ''-'' then (True, cs)
           else if c = CHR ''+'' then (False, cs)
           else (False, s)))"

definition strip_radix :: "string \<Rightarrow> nat \<times> string" where
  "strip_radix s =
     (case s of
        c # d # cs \<Rightarrow>
          (if c = CHR ''0'' \<and> (d = CHR ''x'' \<or> d = CHR ''X'') then (16, cs) else (10, s))
      | _ \<Rightarrow> (10, s))"

definition parse_int_string :: "string \<Rightarrow> int option" where
  "parse_int_string s =
     (case strip_sign (dropWhile is_space s) of
        (neg, s1) \<Rightarrow>
          (case strip_radix s1 of
             (radix, s2) \<Rightarrow>
               (case parse_digits radix None s2 of
                  None \<Rightarrow> None
                | Some n \<Rightarrow> Some (if neg then - int n else int n))))"

definition parseInt :: "jsval \<Rightarrow> error + int option" where
  "parseInt v = (case to_string v of Inl e \<Rightarrow> Inl e | Inr s \<Rightarrow> Inr (parse_int_string s))"

text \<open>A number is falsy when it is NaN or zero.\<close>

fun num_truthy :: "int option \<Rightarrow> bool" where
  "num_truthy None = False"
| "num_truthy (Some n) = (n \<noteq> 0)"

section \<open>Field extraction of the webhook handler\<close>

text \<open>
  Both variants of \<open>app.post('/saweria')\<close> read the same alias fields with chains of
  \<open>||\<close>: the first operand that is truthy is the value of the chain.
\<close>

definition extract_username :: "jsval \<Rightarrow> jsval" where
  "extract_username data =
     js_or (get_prop data ''donatur_name'')
    (js_or (get_prop data ''donator_name'')
    (js_or (get_prop data ''supporter_name'')
    (js_or (get_prop data ''supporter'')
    (js_or (get_prop data ''name'')
    (js_or (get_prop data ''username'')
           (JStr ''Anonymous''))))))"

text \<open>
  \<open>parseInt(v) || rest\<close>: \<open>parseInt\<close> may raise (ToString of its argument), a NaN or
  zero result passes on to the rest of the chain, which is evaluated only then.
\<close>

definition or_parseInt :: "jsval \<Rightarrow> error + int \<Rightarrow> error + int" where
  "or_parseInt v rest =
     (case parseInt v of
        Inl e \<Rightarrow> Inl e
      | Inr None \<Rightarrow> rest
      | Inr (Some n) \<Rightarrow> (if n \<noteq> 0 then Inr n else rest))"

definition extract_amount :: "jsval \<Rightarrow> error + int" where
  "extract_amount data =
     or_parseInt (get_prop data ''amount_raw'')
    (or_parseInt (get_prop data ''amount'')
    (or_parseInt (get_prop data ''nominal'')
    (or_parseInt (get_prop data ''donation'')
                 (Inr 0))))"

definition extract_message :: "jsval \<Rightarrow> jsval" where
  "extract_message data =
     js_or (get_prop data ''message'')
    (js_or (get_prop data ''pesan'')
    (js_or (get_prop data ''note'')
    (js_or (get_prop data ''comment'')
           (JStr []))))"

text \<open>
  The three chains in the order of the handler. Reading a property of a body that is
  undefined or null raises a TypeError at the first chain.
\<close>

definition extract_fields :: "jsval \<Rightarrow> error + (jsval \<times> int \<times> jsval)" where
  "extract_fields data =
     (if data = JUndefined \<or> data = JNull then Inl TypeError
      else (case extract_amount data of
              Inl e \<Rightarrow> Inl e
            | Inr a \<Rightarrow> Inr (extract_username data, a, extract_message data)))"

section \<open>Donations, leaderboard entries and the environment of a request\<close>

text \<open>
  A donation has the fields both variants share; \<open>id_of\<close> is its field \<open>id\<close>.
  \<open>timestamp\<close> is the instant that \<open>toISOString\<close> renders; the constant
  \<open>avatar_url: null\<close> of the in-memory variant and the column \<open>created_at\<close> of the
  database are read by no operation and are left out.
\<close>

record named =
  username :: jsval
  display_name :: jsval

record donation = named +
  id_of :: string
  amount :: int
  message :: jsval
  timestamp :: nat
  received_at :: nat
  delivered :: bool

record spender = named +
  total_amount :: int

text \<open>
  What a request reads from its environment, in the order of the reads: the clock and the
  random suffix of \<open>generateDonationId\<close>, the clock of \<open>new Date()\<close>, and the clock of
  the second \<open>Date.now()\<close>.
\<close>

record env =
  id_time :: nat
  id_random :: string
  iso_time :: nat
  recv_time :: nat

definition generateDonationId :: "env \<Rightarrow> string" where
  "generateDonationId e = string_of_nat (id_time e) @ ''-'' @ id_random e"

text \<open>
  The JSON replies. Of the poll reply only \<open>donation\<close> and \<open>queue_size\<close> are
  modelled; \<open>top_spenders\<close> and \<open>timestamp\<close> are left out.
\<close>

datatype ingest_reply =
    Ingest200 string nat
  | Ingest400 error

datatype poll_reply =
    Poll200 "donation option" nat
  | Poll500 error

definition undelivered_count :: "donation list \<Rightarrow> nat" where
  "undelivered_count ds = length (filter (\<lambda>d. \<not> delivered d) ds)"

section \<open>The in-memory variant\<close>

text \<open>
  The store is the queue array and the leaderboard object, kept as the list of its own
  properties under their string keys; the order in which they are enumerated plays no
  part in what follows. \<open>lastRawData\<close> is never assigned anything but null and is
  left out.
\<close>

record mem_store =
  donationQueue :: "donation list"
  topSpenders :: "(string \<times> spender) list"

definition MAX_QUEUE_SIZE :: nat where
  "MAX_QUEUE_SIZE = 20"

definition DONATION_LIFETIME :: int where
  "DONATION_LIFETIME = 120000"

text \<open>
  \<open>topSpenders\<close> is a plain object, so \<open>topSpenders[k]\<close> finds an own property first and
  then the properties every object inherits from \<open>Object.prototype\<close>, all of which are
  truthy (functions, and the prototype itself for \<open>__proto__\<close>).
\<close>

definition object_prototype_keys :: "string list" where
  "object_prototype_keys =
     [''constructor'', ''__defineGetter__'', ''__defineSetter__'', ''hasOwnProperty'',
      ''__lookupGetter__'', ''__lookupSetter__'', ''isPrototypeOf'',
      ''propertyIsEnumerable'', ''toString'', ''valueOf'', ''__proto__'',
      ''toLocaleString'']"

datatype 'a slot = Own 'a | Inherited | Absent

definition top_lookup :: "(string \<times> spender) list \<Rightarrow> string \<Rightarrow> spender slot" where
  "top_lookup tops key =
     (case map_of tops key of
        Some e \<Rightarrow> Own e
      | None \<Rightarrow> (if key \<in> set object_prototype_keys then Inherited else Absent))"

text \<open>
  \<open>if (!topSpenders[username]) { topSpenders[username] = {...} }\<close> followed by
  \<open>topSpenders[username].total_amount += amount\<close>. When the lookup finds an inherited
  property, no entry is created and the addition lands on the inherited object, which is
  no entry of the leaderboard.
\<close>

definition update_top_mem :: "jsval \<Rightarrow> string \<Rightarrow> int \<Rightarrow> (string \<times> spender) list \<Rightarrow> (string \<times> spender) list" where
  "update_top_mem u key a tops =
     (let tops1 =
        (case top_lookup tops key of
           Absent \<Rightarrow> AList.update key \<lparr>username = u, display_name = u, total_amount = 0\<rparr> tops
         | _ \<Rightarrow> tops)
      in (case top_lookup tops1 key of
            Own e \<Rightarrow> AList.update key (e\<lparr>total_amount := total_amount e + a\<rparr>) tops1
          | _ \<Rightarrow> tops1))"

definition new_donation :: "env \<Rightarrow> jsval \<Rightarrow> int \<Rightarrow> jsval \<Rightarrow> donation" where
  "new_donation e u a m =
     \<lparr>username = u, display_name = u, id_of = generateDonationId e, amount = a, message = m,
      timestamp = iso_time e, received_at = recv_time e, delivered = False\<rparr>"

definition push_bounded :: "donation \<Rightarrow> donation list \<Rightarrow> donation list" where
  "push_bounded d q =
     (let q1 = q @ [d] in if length q1 > MAX_QUEUE_SIZE then tl q1 else q1)"

text \<open>
  \<open>app.post('/saweria')\<close>, in-memory. The body of the \<open>try\<close> runs in order: the
  extraction, the push and the shift, then the leaderboard update, whose property key is
  ToString of the username and may raise. The \<open>catch\<close> answers 400 and undoes nothing.
\<close>

definition saweria_mem :: "env \<Rightarrow> jsval \<Rightarrow> mem_store \<Rightarrow> ingest_reply \<times> mem_store" where
  "saweria_mem e data s =
     (case extract_fields data of
        Inl err \<Rightarrow> (Ingest400 err, s)
      | Inr (u, a, m) \<Rightarrow>
          (let s1 = s\<lparr>donationQueue := push_bounded (new_donation e u a m) (donationQueue s)\<rparr>
           in (case to_string u of
                 Inl err \<Rightarrow> (Ingest400 err, s1)
               | Inr key \<Rightarrow>
                   (let s2 = s1\<lparr>topSpenders := update_top_mem u key a (topSpenders s1)\<rparr>
                    in (Ingest200 (generateDonationId e) (undelivered_count (donationQueue s2)), s2)))))"

text \<open>
  \<open>app.get('/roblox-check')\<close>, in-memory. The confirmation id is the query parameter: absent,
  or a string, which is falsy when empty. \<open>find\<close> returns the first match, and the
  handler sets its flag.
\<close>

fun confirm_mem :: "string \<Rightarrow> donation list \<Rightarrow> donation list" where
  "confirm_mem cid [] = []"
| "confirm_mem cid (d # ds) =
     (if id_of d = cid then d\<lparr>delivered := True\<rparr> # ds else d # confirm_mem cid ds)"

definition roblox_check_mem :: "string option \<Rightarrow> mem_store \<Rightarrow> poll_reply \<times> mem_store" where
  "roblox_check_mem confirmId s =
     (let s1 = (case confirmId of
                  None \<Rightarrow> s
                | Some cid \<Rightarrow>
                    (if cid \<noteq> [] then s\<lparr>donationQueue := confirm_mem cid (donationQueue s)\<rparr> else s))
      in (Poll200 (find (\<lambda>d. \<not> delivered d) (donationQueue s1))
                  (undelivered_count (donationQueue s1)), s1))"

definition cleanupOldDonations_mem :: "nat \<Rightarrow> mem_store \<Rightarrow> mem_store" where
  "cleanupOldDonations_mem now s =
     s\<lparr>donationQueue :=
         filter (\<lambda>d. let age = int now - int (received_at d)
                     in \<not> (age > DONATION_LIFETIME) \<and> \<not> (delivered d \<and> age > 30000))
                (donationQueue s)\<rparr>"

definition clear_mem :: "mem_store \<Rightarrow> mem_store" where
  "clear_mem s = \<lparr>donationQueue = [], topSpenders = []\<rparr>"

definition init_mem :: mem_store where
  "init_mem = \<lparr>donationQueue = [], topSpenders = []\<rparr>"

section \<open>The SQLite variant\<close>

text \<open>
  The two tables, rows in insertion order. The database library is not part of the
  repository; the statements are modelled from their SQL text, and a statement raises only
  for a parameter that cannot be bound (a boolean, an array or an object) or for a
  violated constraint. Failures of the storage itself are not modelled. Values are kept
  as bound.
\<close>

record db =
  donations :: "donation list"
  top_spenders :: "(jsval \<times> spender) list"

fun bindable :: "jsval \<Rightarrow> bool" where
  "bindable (JStr s) = True"
| "bindable (JNum n) = True"
| "bindable JNull = True"
| "bindable v = False"

definition insertDonation :: "string \<Rightarrow> jsval \<Rightarrow> jsval \<Rightarrow> int \<Rightarrow> jsval \<Rightarrow> nat \<Rightarrow> nat \<Rightarrow> db \<Rightarrow> error + db" where
  "insertDonation i u dn a m ts ra d =
     (if \<not> (bindable u \<and> bindable dn \<and> bindable m) then Inl TypeError
      else if u = JNull \<or> dn = JNull then Inl SqliteConstraint
      else if i \<in> set (map id_of (donations d)) then Inl SqliteConstraint
      else Inr (d\<lparr>donations := donations d @
                  [\<lparr>username = u, display_name = dn, id_of = i, amount = a, message = m,
                    timestamp = ts, received_at = ra, delivered = False\<rparr>]\<rparr>))"

definition updateTopSpender :: "jsval \<Rightarrow> jsval \<Rightarrow> int \<Rightarrow> db \<Rightarrow> error + db" where
  "updateTopSpender u dn a d =
     (if \<not> (bindable u \<and> bindable dn) then Inl TypeError
      else if u = JNull \<or> dn = JNull then Inl SqliteConstraint
      else Inr (d\<lparr>top_spenders :=
                  AList.update u
                    (case map_of (top_spenders d) u of
                       None \<Rightarrow> \<lparr>username = u, display_name = dn, total_amount = a\<rparr>
                     | Some e \<Rightarrow> e\<lparr>display_name := dn, total_amount := total_amount e + a\<rparr>)
                    (top_spenders d)\<rparr>))"

definition markDelivered :: "string \<Rightarrow> db \<Rightarrow> db" where
  "markDelivered cid d =
     d\<lparr>donations := map (\<lambda>r. if id_of r = cid then r\<lparr>delivered := True\<rparr> else r) (donations d)\<rparr>"

text \<open>
  \<open>SELECT ... WHERE delivered = 0 ORDER BY received_at ASC LIMIT 1\<close>: the rows that
  qualify, sorted, and the first of them. SQL leaves the order of equal keys open; the
  stable sort keeps the row order.
\<close>

definition getUndeliveredDonation :: "db \<Rightarrow> donation option" where
  "getUndeliveredDonation d =
     (case sort_key received_at (filter (\<lambda>r. \<not> delivered r) (donations d)) of
        [] \<Rightarrow> None
      | r # rs \<Rightarrow> Some r)"

definition cleanOldDonations :: "int \<Rightarrow> int \<Rightarrow> db \<Rightarrow> db" where
  "cleanOldDonations deliveredThreshold undeliveredThreshold d =
     d\<lparr>donations :=
         filter (\<lambda>r. \<not> ((delivered r \<and> int (received_at r) < deliveredThreshold)
                         \<or> int (received_at r) < undeliveredThreshold))
                (donations d)\<rparr>"

definition cleanupOldDonations_sql :: "nat \<Rightarrow> db \<Rightarrow> db" where
  "cleanupOldDonations_sql now d = cleanOldDonations (int now - 60000) (int now - 300000) d"

definition saweria_sql :: "env \<Rightarrow> jsval \<Rightarrow> db \<Rightarrow> ingest_reply \<times> db" where
  "saweria_sql e data d =
     (case extract_fields data of
        Inl err \<Rightarrow> (Ingest400 err, d)
      | Inr (u, a, m) \<Rightarrow>
          (case insertDonation (generateDonationId e) u u a m (iso_time e) (recv_time e) d of
             Inl err \<Rightarrow> (Ingest400 err, d)
           | Inr d1 \<Rightarrow>
               (case updateTopSpender u u a d1 of
                  Inl err \<Rightarrow> (Ingest400 err, d1)
                | Inr d2 \<Rightarrow>
                    (Ingest200 (generateDonationId e) (undelivered_count (donations d2)), d2))))"

definition roblox_check_sql :: "string option \<Rightarrow> db \<Rightarrow> poll_reply \<times> db" where
  "roblox_check_sql confirmId d =
     (let d1 = (case confirmId of
                  None \<Rightarrow> d
                | Some cid \<Rightarrow> (if cid \<noteq> [] then markDelivered cid d else d))
      in (Poll200 (getUndeliveredDonation d1) (undelivered_count (donations d1)), d1))"

definition clear_sql :: "db \<Rightarrow> db" where
  "clear_sql d = \<lparr>donations = [], top_spenders = []\<rparr>"

definition init_sql :: db where
  "init_sql = \<lparr>donations = [], top_spenders = []\<rparr>"

section \<open>Reference functions for the stated properties\<close>

text \<open>
  The alias fields of each attribute in the order the handlers list them, and the
  first-match lookup the specification describes, against which the chains of the
  handlers are compared.
\<close>

definition username_aliases :: "string list" where
  "username_aliases =
     [''donatur_name'', ''donator_name'', ''supporter_name'', ''supporter'', ''name'',
      ''username'']"

definition amount_aliases :: "string list" where
  "amount_aliases = [''amount_raw'', ''amount'', ''nominal'', ''donation'']"

definition message_aliases :: "string list" where
  "message_aliases = [''message'', ''pesan'', ''note'', ''comment'']"

fun first_truthy :: "jsval list \<Rightarrow> jsval \<Rightarrow> jsval" where
  "first_truthy [] dflt = dflt"
| "first_truthy (v # vs) dflt = (if truthy v then v else first_truthy vs dflt)"

fun first_nonzero :: "(error + int option) list \<Rightarrow> error + int" where
  "first_nonzero [] = Inr 0"
| "first_nonzero (r # rs) =
     (case r of
        Inl e \<Rightarrow> Inl e
      | Inr None \<Rightarrow> first_nonzero rs
      | Inr (Some n) \<Rightarrow> (if n \<noteq> 0 then Inr n else first_nonzero rs))"

text \<open>
  The requests the in-memory server handles, and the store after a sequence of them from
  the start of the process. \<open>Cleanup\<close> is the timer, with the clock it reads.
\<close>

datatype request =
    Saweria env jsval
  | RobloxCheck "string option"
  | Cleanup nat
  | Clear

fun step_mem :: "mem_store \<Rightarrow> request \<Rightarrow> mem_store" where
  "step_mem s (Saweria e data) = snd (saweria_mem e data s)"
| "step_mem s (RobloxCheck c) = snd (roblox_check_mem c s)"
| "step_mem s (Cleanup now) = cleanupOldDonations_mem now s"
| "step_mem s Clear = clear_mem s"

definition run_mem :: "request list \<Rightarrow> mem_store" where
  "run_mem rs = foldl step_mem init_mem rs"

fun step_sql :: "db \<Rightarrow> request \<Rightarrow> db" where
  "step_sql d (Saweria e data) = snd (saweria_sql e data d)"
| "step_sql d (RobloxCheck c) = snd (roblox_check_sql c d)"
| "step_sql d (Cleanup now) = cleanupOldDonations_sql now d"
| "step_sql d Clear = clear_sql d"

definition run_sql :: "request list \<Rightarrow> db" where
  "run_sql rs = foldl step_sql init_sql rs"

text \<open>The leaderboard total of a key, when the key has an entry.\<close>

definition total_mem :: "mem_store \<Rightarrow> string \<Rightarrow> int option" where
  "total_mem s key = map_option total_amount (map_of (topSpenders s) key)"

definition total_sql :: "db \<Rightarrow> jsval \<Rightarrow> int option" where
  "total_sql d u = map_option total_amount (map_of (top_spenders d) u)"

text \<open>
  Whether each ingest of a sequence succeeds on the database the earlier ones left, as
  the replies show.
\<close>

fun all_succeed_sql :: "db \<Rightarrow> (env \<times> jsval) list \<Rightarrow> bool" where
  "all_succeed_sql d [] = True"
| "all_succeed_sql d (r # rs) =
     ((case fst (saweria_sql (fst r) (snd r) d) of Ingest200 i n \<Rightarrow> True | Ingest400 err \<Rightarrow> False)
      \<and> all_succeed_sql (snd (saweria_sql (fst r) (snd r) d)) rs)"

text \<open>
  The clock readings the ingests of a sequence of requests stored in \<open>received_at\<close>,
  in the order of the requests.
\<close>

fun ingest_times :: "request list \<Rightarrow> nat list" where
  "ingest_times [] = []"
| "ingest_times (Saweria e data # rs) = recv_time e # ingest_times rs"
| "ingest_times (r # rs) = ingest_times rs"

section \<open>Shared lemmas\<close>

lemma extract_username_first:
  "extract_username data = first_truthy (map (get_prop data) username_aliases) (JStr ''Anonymous'')"
  by (simp add: extract_username_def username_aliases_def js_or_def)

lemma extract_message_first:
  "extract_message data = first_truthy (map (get_prop data) message_aliases) (JStr [])"
  by (simp add: extract_message_def message_aliases_def js_or_def)

lemma extract_amount_first:
  "extract_amount data = first_nonzero (map (\<lambda>k. parseInt (get_prop data k)) amount_aliases)"
  by (simp add: extract_amount_def amount_aliases_def or_parseInt_def split: sum.splits option.splits)

lemma first_truthy_split:
  "\<forall>v\<in>set vs1. \<not> truthy v \<Longrightarrow> truthy v \<Longrightarrow> first_truthy (vs1 @ v # vs2) dflt = v"
  by (induction vs1) auto

lemma first_truthy_none:
  "\<forall>v\<in>set vs. \<not> truthy v \<Longrightarrow> first_truthy vs dflt = dflt"
  by (induction vs) auto

lemma first_nonzero_split:
  "\<forall>r\<in>set rs1. r = Inr None \<or> r = Inr (Some 0) \<Longrightarrow> n \<noteq> 0 \<Longrightarrow>
     first_nonzero (rs1 @ Inr (Some n) # rs2) = Inr n"
  by (induction rs1) auto

lemma first_nonzero_none:
  "\<forall>r\<in>set rs. r = Inr None \<or> r = Inr (Some 0) \<Longrightarrow> first_nonzero rs = Inr 0"
  by (induction rs) auto


lemmas parse_defs =
  parseInt_def parse_int_string_def strip_sign_def strip_radix_def is_space_def
  digit_val_def digit_table_def string_of_int_def digit_chars_def

lemma parseInt_undefined: "parseInt JUndefined = Inr None"
  by (simp add: parse_defs)

lemma last_push_bounded: "last (push_bounded d q) = d"
  by (cases q) (simp_all add: push_bounded_def MAX_QUEUE_SIZE_def Let_def)

lemma saweria_mem_extract_fail:
  "extract_fields data = Inl err \<Longrightarrow> saweria_mem e data s = (Ingest400 err, s)"
  by (simp add: saweria_mem_def)

lemma saweria_mem_queue:
  "extract_fields data = Inr (u, a, m) \<Longrightarrow>
     donationQueue (snd (saweria_mem e data s)) = push_bounded (new_donation e u a m) (donationQueue s)"
  by (simp add: saweria_mem_def Let_def split: sum.splits)

lemma saweria_mem_ok:
  "extract_fields data = Inr (u, a, m) \<Longrightarrow> to_string u = Inr key \<Longrightarrow>
     saweria_mem e data s =
       (Ingest200 (generateDonationId e)
          (undelivered_count (push_bounded (new_donation e u a m) (donationQueue s))),
        \<lparr>donationQueue = push_bounded (new_donation e u a m) (donationQueue s),
         topSpenders = update_top_mem u key a (topSpenders s)\<rparr>)"
  by (simp add: saweria_mem_def Let_def)

lemma saweria_sql_ok:
  "extract_fields data = Inr (u, a, m) \<Longrightarrow> bindable u \<Longrightarrow> u \<noteq> JNull \<Longrightarrow> bindable m \<Longrightarrow>
   generateDonationId e \<notin> set (map id_of (donations d)) \<Longrightarrow>
     saweria_sql e data d =
       (Ingest200 (generateDonationId e)
          (undelivered_count (donations d @ [new_donation e u a m])),
        \<lparr>donations = donations d @ [new_donation e u a m],
         top_spenders = AList.update u
           (case map_of (top_spenders d) u of
              None \<Rightarrow> \<lparr>username = u, display_name = u, total_amount = a\<rparr>
            | Some x \<Rightarrow> x\<lparr>display_name := u, total_amount := total_amount x + a\<rparr>)
           (top_spenders d)\<rparr>)"
  by (simp add: saweria_sql_def insertDonation_def updateTopSpender_def new_donation_def)

lemma extract_fields_missing:
  assumes "data \<noteq> JUndefined" "data \<noteq> JNull"
    and "\<forall>k\<in>set (username_aliases @ amount_aliases @ message_aliases). get_prop data k = JUndefined"
  shows "extract_fields data = Inr (JStr ''Anonymous'', 0, JStr [])"
proof -
  have u: "extract_username data = JStr ''Anonymous''"
    unfolding extract_username_first using assms(3) by (intro first_truthy_none) auto
  have m: "extract_message data = JStr []"
    unfolding extract_message_first using assms(3) by (intro first_truthy_none) auto
  have a: "extract_amount data = Inr 0"
    unfolding extract_amount_first using assms(3)
    by (intro first_nonzero_none) (auto simp: parseInt_undefined)
  show ?thesis using assms(1,2) u m a by (simp add: extract_fields_def)
qed

section \<open>Payloads without any alias field\<close>

text \<open>
  C9: for every payload (a body that is not undefined or null) in which every alias field
  of every attribute is missing, the fields extracted are the username \<open>Anonymous\<close>, the
  amount 0 and the empty message; the in-memory handler answers 200 and the donation it
  queued carries them, and so does the row the SQLite handler inserts when the generated
  id is not taken.
\<close>

theorem missing_aliases_defaults:
  assumes "data \<noteq> JUndefined" "data \<noteq> JNull"
    and "list_all (\<lambda>k. get_prop data k = JUndefined)
           (username_aliases @ amount_aliases @ message_aliases)"
  shows "extract_fields data = Inr (JStr ''Anonymous'', 0, JStr [])
       \<and> (\<exists>n. fst (saweria_mem e data s) = Ingest200 (generateDonationId e) n)
       \<and> username (last (donationQueue (snd (saweria_mem e data s)))) = JStr ''Anonymous''
       \<and> amount (last (donationQueue (snd (saweria_mem e data s)))) = 0
       \<and> message (last (donationQueue (snd (saweria_mem e data s)))) = JStr []
       \<and> (generateDonationId e \<notin> set (map id_of (donations d)) \<longrightarrow>
            (\<exists>n. fst (saweria_sql e data d) = Ingest200 (generateDonationId e) n)
          \<and> username (last (donations (snd (saweria_sql e data d)))) = JStr ''Anonymous''
          \<and> amount (last (donations (snd (saweria_sql e data d)))) = 0
          \<and> message (last (donations (snd (saweria_sql e data d)))) = JStr [])"
proof -
  have h: "\<forall>k\<in>set (username_aliases @ amount_aliases @ message_aliases).
             get_prop data k = JUndefined"
    using assms(3) by (simp only: list_all_iff)
  have x: "extract_fields data = Inr (JStr ''Anonymous'', 0, JStr [])"
    using assms(1,2) h by (rule extract_fields_missing)
  have k: "to_string (JStr ''Anonymous'') = Inr ''Anonymous''" by simp
  show ?thesis
    using x saweria_mem_ok [OF x k, of e s]
    by (auto simp: last_push_bounded saweria_sql_ok [OF x] new_donation_def)
qed

theorem missing_aliases_defaults_witness:
  "list_all (\<lambda>k. get_prop (JObj [(''foo'', JStr ''bar'')]) k = JUndefined)
     (username_aliases @ amount_aliases @ message_aliases)
   \<and> extract_fields (JObj [(''foo'', JStr ''bar'')]) = Inr (JStr ''Anonymous'', 0, JStr [])
   \<and> amount (last (donationQueue (snd (saweria_mem
        \<lparr>id_time = 7, id_random = ''k3'', iso_time = 7, recv_time = 7\<rparr>
        (JObj [(''foo'', JStr ''bar'')]) init_mem)))) = 0
   \<and> username (last (donations (snd (saweria_sql
        \<lparr>id_time = 7, id_random = ''k3'', iso_time = 7, recv_time = 7\<rparr>
        (JObj [(''foo'', JStr ''bar'')]) init_sql)))) = JStr ''Anonymous''"
proof -
  have h: "list_all (\<lambda>k. get_prop (JObj [(''foo'', JStr ''bar'')]) k = JUndefined)
     (username_aliases @ amount_aliases @ message_aliases)"
    by (simp add: username_aliases_def amount_aliases_def message_aliases_def)
  show ?thesis
    using h missing_aliases_defaults [of "JObj [(''foo'', JStr ''bar'')]"
        "\<lparr>id_time = 7, id_random = ''k3'', iso_time = 7, recv_time = 7\<rparr>" init_mem init_sql, OF _ _ h]
    by (simp add: init_sql_def)
qed

section \<open>Several alias fields set\<close>






text \<open>
  C2 as written says that a first amount alias that is not numeric yields the amount 0
  and not the value of a later alias. With \<open>amount_raw\<close> equal to \<open>abc\<close> and
  \<open>amount\<close> equal to \<open>500\<close> the first alias parses to NaN, the chain moves on, and
  the donation is stored with the amount 500.
\<close>

theorem non_numeric_first_alias_counterexample:
  "parseInt (JStr ''abc'') = Inr None
   \<and> extract_amount (JObj [(''amount_raw'', JStr ''abc''), (''amount'', JStr ''500'')]) = Inr 500
   \<and> amount (last (donationQueue (snd (saweria_mem
        \<lparr>id_time = 7, id_random = ''k3'', iso_time = 7, recv_time = 7\<rparr>
        (JObj [(''amount_raw'', JStr ''abc''), (''amount'', JStr ''500'')]) init_mem)))) = 500"
  by (simp add: extract_amount_def or_parseInt_def parse_defs saweria_mem_def extract_fields_def
      Let_def last_push_bounded new_donation_def split: sum.splits)

text \<open>
  C2, as the handlers have it: of the alias fields of an attribute the first-listed one
  whose value is truthy wins, whatever the later ones hold; for the amount, the
  first-listed alias whose \<open>parseInt\<close> is a number other than zero wins, the aliases
  before it parsing to NaN or to 0, and the amount is 0 when every alias parses to NaN or
  to 0.
\<close>

theorem first_truthy_alias_wins:
  "(username_aliases = ks1 @ k # ks2
      \<and> list_all (\<lambda>j. \<not> truthy (get_prop data j)) ks1 \<and> truthy (get_prop data k)
      \<longrightarrow> extract_username data = get_prop data k)
   \<and> (message_aliases = ms1 @ m # ms2
      \<and> list_all (\<lambda>j. \<not> truthy (get_prop data j)) ms1 \<and> truthy (get_prop data m)
      \<longrightarrow> extract_message data = get_prop data m)
   \<and> (amount_aliases = as1 @ a # as2
      \<and> list_all (\<lambda>j. parseInt (get_prop data j) = Inr None
                     \<or> parseInt (get_prop data j) = Inr (Some 0)) as1
      \<and> parseInt (get_prop data a) = Inr (Some n) \<and> n \<noteq> 0
      \<longrightarrow> extract_amount data = Inr n)
   \<and> (list_all (\<lambda>j. parseInt (get_prop data j) = Inr None
                     \<or> parseInt (get_prop data j) = Inr (Some 0)) amount_aliases
      \<longrightarrow> extract_amount data = Inr 0)"
proof (intro conjI impI)
  assume h: "username_aliases = ks1 @ k # ks2
      \<and> list_all (\<lambda>j. \<not> truthy (get_prop data j)) ks1 \<and> truthy (get_prop data k)"
  have e: "map (get_prop data) username_aliases
      = map (get_prop data) ks1 @ get_prop data k # map (get_prop data) ks2"
    by (simp only: h [THEN conjunct1] map_append list.map)
  show "extract_username data = get_prop data k"
    unfolding extract_username_first e using h
    by (intro first_truthy_split) (auto simp: list_all_iff)
next
  assume h: "message_aliases = ms1 @ m # ms2
      \<and> list_all (\<lambda>j. \<not> truthy (get_prop data j)) ms1 \<and> truthy (get_prop data m)"
  have e: "map (get_prop data) message_aliases
      = map (get_prop data) ms1 @ get_prop data m # map (get_prop data) ms2"
    by (simp only: h [THEN conjunct1] map_append list.map)
  show "extract_message data = get_prop data m"
    unfolding extract_message_first e using h
    by (intro first_truthy_split) (auto simp: list_all_iff)
next
  assume h: "amount_aliases = as1 @ a # as2
      \<and> list_all (\<lambda>j. parseInt (get_prop data j) = Inr None
                     \<or> parseInt (get_prop data j) = Inr (Some 0)) as1
      \<and> parseInt (get_prop data a) = Inr (Some n) \<and> n \<noteq> 0"
  have e: "map (\<lambda>j. parseInt (get_prop data j)) amount_aliases
      = map (\<lambda>j. parseInt (get_prop data j)) as1 @ Inr (Some n)
          # map (\<lambda>j. parseInt (get_prop data j)) as2"
    by (simp only: h [THEN conjunct1] h [THEN conjunct2, THEN conjunct2, THEN conjunct1, symmetric]
        map_append list.map)
  show "extract_amount data = Inr n"
    unfolding extract_amount_first e using h
    by (intro first_nonzero_split) (auto simp: list_all_iff)
next
  assume "list_all (\<lambda>j. parseInt (get_prop data j) = Inr None
                     \<or> parseInt (get_prop data j) = Inr (Some 0)) amount_aliases"
  then show "extract_amount data = Inr 0"
    unfolding extract_amount_first by (intro first_nonzero_none) (auto simp: list_all_iff)
qed

theorem first_truthy_alias_wins_witness:
  "extract_username (JObj [(''donatur_name'', JStr []), (''name'', JStr ''Budi''),
       (''username'', JStr ''Ani''), (''amount_raw'', JStr ''abc''), (''amount'', JStr ''500''),
       (''nominal'', JNum 9), (''message'', JStr ''hi''), (''pesan'', JStr ''yo'')])
     = JStr ''Budi''
   \<and> extract_message (JObj [(''donatur_name'', JStr []), (''name'', JStr ''Budi''),
       (''username'', JStr ''Ani''), (''amount_raw'', JStr ''abc''), (''amount'', JStr ''500''),
       (''nominal'', JNum 9), (''message'', JStr ''hi''), (''pesan'', JStr ''yo'')])
     = JStr ''hi''
   \<and> extract_amount (JObj [(''donatur_name'', JStr []), (''name'', JStr ''Budi''),
       (''username'', JStr ''Ani''), (''amount_raw'', JStr ''abc''), (''amount'', JStr ''500''),
       (''nominal'', JNum 9), (''message'', JStr ''hi''), (''pesan'', JStr ''yo'')])
     = Inr 500
   \<and> extract_amount (JObj [(''amount_raw'', JStr ''abc''), (''amount'', JStr ''0'')]) = Inr 0"
  using first_truthy_alias_wins [of
      "[''donatur_name'', ''donator_name'', ''supporter_name'', ''supporter'']" "''name''"
      "[''username'']"
      "JObj [(''donatur_name'', JStr []), (''name'', JStr ''Budi''),
       (''username'', JStr ''Ani''), (''amount_raw'', JStr ''abc''), (''amount'', JStr ''500''),
       (''nominal'', JNum 9), (''message'', JStr ''hi''), (''pesan'', JStr ''yo'')]"
      "[]" "''message''" "[''pesan'', ''note'', ''comment'']"
      "[''amount_raw'']" "''amount''" "[''nominal'', ''donation'']" 500]
    first_truthy_alias_wins [of "[]" "''x''" "[]"
      "JObj [(''amount_raw'', JStr ''abc''), (''amount'', JStr ''0'')]"]
  by (simp add: username_aliases_def message_aliases_def amount_aliases_def parse_defs)

section \<open>Presence of an alias field is judged by truthiness\<close>






section \<open>Sign of the stored amount\<close>

lemma updateTopSpender_ok:
  "bindable u \<Longrightarrow> u \<noteq> JNull \<Longrightarrow> \<exists>d'. updateTopSpender u u a d = Inr d'"
  by (simp add: updateTopSpender_def)







section \<open>How the operations change a leaderboard total\<close>


lemma update_top_mem_own:
  "map_of tops key = Some x \<Longrightarrow>
     map_of (update_top_mem u key a tops) key = Some (x\<lparr>total_amount := total_amount x + a\<rparr>)"
  by (simp add: update_top_mem_def top_lookup_def Let_def AList.update_conv')

lemma update_top_mem_new:
  "map_of tops key = None \<Longrightarrow> key \<notin> set object_prototype_keys \<Longrightarrow>
     map_of (update_top_mem u key a tops) key
       = Some \<lparr>username = u, display_name = u, total_amount = a\<rparr>"
  by (simp add: update_top_mem_def top_lookup_def Let_def AList.update_conv')

lemma update_top_mem_inherited:
  "map_of tops key = None \<Longrightarrow> key \<in> set object_prototype_keys \<Longrightarrow>
     update_top_mem u key a tops = tops"
  by (simp add: update_top_mem_def top_lookup_def Let_def)

lemma saweria_mem_tops:
  "topSpenders (snd (saweria_mem e data s)) =
     (case extract_fields data of
        Inl err \<Rightarrow> topSpenders s
      | Inr (u, a, m) \<Rightarrow>
          (case to_string u of
             Inl err \<Rightarrow> topSpenders s
           | Inr key \<Rightarrow> update_top_mem u key a (topSpenders s)))"
  by (simp add: saweria_mem_def Let_def split: sum.splits prod.splits)

lemma saweria_sql_tops:
  "top_spenders (snd (saweria_sql e data d)) =
     (case extract_fields data of
        Inl err \<Rightarrow> top_spenders d
      | Inr (u, a, m) \<Rightarrow>
          (case fst (saweria_sql e data d) of
             Ingest400 err \<Rightarrow> top_spenders d
           | Ingest200 i n \<Rightarrow>
               AList.update u
                 (case map_of (top_spenders d) u of
                    None \<Rightarrow> \<lparr>username = u, display_name = u, total_amount = a\<rparr>
                  | Some x \<Rightarrow> x\<lparr>display_name := u, total_amount := total_amount x + a\<rparr>)
                 (top_spenders d)))"
  by (auto simp: saweria_sql_def insertDonation_def updateTopSpender_def
      split: sum.splits prod.splits if_splits)







section \<open>The leaderboard total after a run of ingests\<close>

lemma total_mem_step_own:
  assumes "extract_fields data = Inr (u, a, m)" and "to_string u = Inr key"
    and "total_mem s key = Some t"
  shows "total_mem (snd (saweria_mem e data s)) key = Some (t + a)"
  using assms by (auto simp: total_mem_def saweria_mem_tops update_top_mem_own)

lemma total_mem_step_new:
  assumes "extract_fields data = Inr (u, a, m)" and "to_string u = Inr key"
    and "total_mem s key = None" and "key \<notin> set object_prototype_keys"
  shows "total_mem (snd (saweria_mem e data s)) key = Some a"
  using assms by (auto simp: total_mem_def saweria_mem_tops update_top_mem_new)

lemma total_mem_step_inherited:
  assumes "extract_fields data = Inr (u, a, m)" and "to_string u = Inr key"
    and "total_mem s key = None" and "key \<in> set object_prototype_keys"
  shows "total_mem (snd (saweria_mem e data s)) key = None"
  using assms by (auto simp: total_mem_def saweria_mem_tops update_top_mem_inherited)

lemma total_sql_step:
  assumes "extract_fields data = Inr (u, a, m)"
    and "fst (saweria_sql e data d) = Ingest200 i n"
  shows "total_sql (snd (saweria_sql e data d)) u
       = Some (case total_sql d u of None \<Rightarrow> a | Some t \<Rightarrow> t + a)"
  using assms
  by (auto simp: total_sql_def saweria_sql_tops AList.update_conv' split: option.splits)

lemma leaderboard_sum_mem_from:
  assumes "to_string u = Inr key"
  shows "total_mem s key = Some t \<Longrightarrow>
         list_all2 (\<lambda>r a. \<exists>m. extract_fields (snd r) = Inr (u, a, m)) reqs as \<Longrightarrow>
         total_mem (foldl step_mem s (map (\<lambda>r. Saweria (fst r) (snd r)) reqs)) key
           = Some (t + sum_list as)"
proof (induction reqs arbitrary: s t as)
  case Nil
  then show ?case by simp
next
  case (Cons r reqs)
  from Cons.prems(2) obtain a as' m where as: "as = a # as'"
    and x: "extract_fields (snd r) = Inr (u, a, m)"
    and rest: "list_all2 (\<lambda>r a. \<exists>m. extract_fields (snd r) = Inr (u, a, m)) reqs as'"
    by (auto simp: list_all2_Cons1)
  have "total_mem (snd (saweria_mem (fst r) (snd r) s)) key = Some (t + a)"
    using x assms Cons.prems(1) by (rule total_mem_step_own)
  from Cons.IH [OF this rest] show ?case
    by (simp add: as add.assoc)
qed

text \<open>
  In the in-memory variant the total is the sum of the extracted amounts when the key of
  the username is not the name of a property every object inherits.
\<close>

lemma leaderboard_sum_mem:
  assumes "to_string u = Inr key" and "key \<notin> set object_prototype_keys"
    and "total_mem s key = None"
    and "list_all2 (\<lambda>r a. \<exists>m. extract_fields (snd r) = Inr (u, a, m)) reqs as"
    and "reqs \<noteq> []"
  shows "total_mem (foldl step_mem s (map (\<lambda>r. Saweria (fst r) (snd r)) reqs)) key
           = Some (sum_list as)"
proof -
  from assms(4,5) obtain r reqs' a as' m where reqs: "reqs = r # reqs'" and as: "as = a # as'"
    and x: "extract_fields (snd r) = Inr (u, a, m)"
    and rest: "list_all2 (\<lambda>r a. \<exists>m. extract_fields (snd r) = Inr (u, a, m)) reqs' as'"
    by (cases reqs) (auto simp: list_all2_Cons1)
  have "total_mem (snd (saweria_mem (fst r) (snd r) s)) key = Some a"
    using x assms(1,3,2) by (rule total_mem_step_new)
  from leaderboard_sum_mem_from [OF assms(1) this rest] show ?thesis
    by (simp add: reqs as)
qed

lemma leaderboard_sum_sql_from:
  "total_sql d u = Some t \<Longrightarrow>
   list_all2 (\<lambda>r a. \<exists>m. extract_fields (snd r) = Inr (u, a, m)) reqs as \<Longrightarrow>
   all_succeed_sql d reqs \<Longrightarrow>
   total_sql (foldl step_sql d (map (\<lambda>r. Saweria (fst r) (snd r)) reqs)) u
     = Some (t + sum_list as)"
proof (induction reqs arbitrary: d t as)
  case Nil
  then show ?case by simp
next
  case (Cons r reqs)
  from Cons.prems(2) obtain a as' m where as: "as = a # as'"
    and x: "extract_fields (snd r) = Inr (u, a, m)"
    and rest: "list_all2 (\<lambda>r a. \<exists>m. extract_fields (snd r) = Inr (u, a, m)) reqs as'"
    by (auto simp: list_all2_Cons1)
  from Cons.prems(3) obtain i n where ok: "fst (saweria_sql (fst r) (snd r) d) = Ingest200 i n"
    and more: "all_succeed_sql (snd (saweria_sql (fst r) (snd r) d)) reqs"
    by (auto split: ingest_reply.splits)
  have "total_sql (snd (saweria_sql (fst r) (snd r) d)) u = Some (t + a)"
    using total_sql_step [OF x ok] Cons.prems(1) by simp
  from Cons.IH [OF this rest more] show ?case
    by (simp add: as add.assoc)
qed

text \<open>In the SQLite variant the total is the sum for every username.\<close>

lemma leaderboard_sum_sql:
  assumes "total_sql d u = None"
    and "list_all2 (\<lambda>r a. \<exists>m. extract_fields (snd r) = Inr (u, a, m)) reqs as"
    and "all_succeed_sql d reqs" and "reqs \<noteq> []"
  shows "total_sql (foldl step_sql d (map (\<lambda>r. Saweria (fst r) (snd r)) reqs)) u
           = Some (sum_list as)"
proof -
  from assms(2,4) obtain r reqs' a as' m where reqs: "reqs = r # reqs'" and as: "as = a # as'"
    and x: "extract_fields (snd r) = Inr (u, a, m)"
    and rest: "list_all2 (\<lambda>r a. \<exists>m. extract_fields (snd r) = Inr (u, a, m)) reqs' as'"
    by (cases reqs) (auto simp: list_all2_Cons1)
  from assms(3) obtain i n where ok: "fst (saweria_sql (fst r) (snd r) d) = Ingest200 i n"
    and more: "all_succeed_sql (snd (saweria_sql (fst r) (snd r) d)) reqs'"
    by (auto simp: reqs split: ingest_reply.splits)
  have "total_sql (snd (saweria_sql (fst r) (snd r) d)) u = Some a"
    using total_sql_step [OF x ok] assms(1) by simp
  from leaderboard_sum_sql_from [OF this rest more] show ?thesis
    by (simp add: reqs as)
qed

text \<open>
  C5: after successful ingests from one username, starting without an entry, the
  leaderboard total of that username is the sum of the extracted amounts. The in-memory
  handler misses this for a username such as \<open>constructor\<close>: the test
  \<open>!topSpenders[username]\<close> finds the inherited property, no entry is created, and
  after a successful ingest of amount 5 the leaderboard has no entry for the username,
  while the SQLite handler records the total 5.
\<close>

theorem inherited_key_has_no_entry:
  "fst (saweria_mem \<lparr>id_time = 7, id_random = ''k3'', iso_time = 7, recv_time = 7\<rparr>
         (JObj [(''name'', JStr ''constructor''), (''amount'', JNum 5)]) init_mem)
     = Ingest200 ''7-k3'' 1
   \<and> extract_fields (JObj [(''name'', JStr ''constructor''), (''amount'', JNum 5)])
     = Inr (JStr ''constructor'', 5, JStr [])
   \<and> total_mem init_mem ''constructor'' = None
   \<and> total_mem (run_mem
       [Saweria \<lparr>id_time = 7, id_random = ''k3'', iso_time = 7, recv_time = 7\<rparr>
         (JObj [(''name'', JStr ''constructor''), (''amount'', JNum 5)])]) ''constructor'' = None
   \<and> total_sql (run_sql
       [Saweria \<lparr>id_time = 7, id_random = ''k3'', iso_time = 7, recv_time = 7\<rparr>
         (JObj [(''name'', JStr ''constructor''), (''amount'', JNum 5)])]) (JStr ''constructor'')
     = Some 5"
  by (simp add: run_mem_def run_sql_def total_mem_def total_sql_def saweria_mem_def
      saweria_sql_def extract_fields_def extract_amount_def
      extract_username_def extract_message_def js_or_def or_parseInt_def parse_defs
      Let_def new_donation_def init_mem_def init_sql_def
      insertDonation_def updateTopSpender_def generateDonationId_def string_of_nat.simps
      undelivered_count_def push_bounded_def MAX_QUEUE_SIZE_def update_top_mem_def
      top_lookup_def object_prototype_keys_def)

section \<open>What an ingest that raises leaves behind\<close>






section \<open>The bound on the in-memory queue\<close>

lemma length_push_bounded:
  "length q \<le> MAX_QUEUE_SIZE \<Longrightarrow> length (push_bounded d q) \<le> MAX_QUEUE_SIZE"
  by (simp add: push_bounded_def Let_def)

lemma push_bounded_full:
  "MAX_QUEUE_SIZE \<le> length q \<Longrightarrow> push_bounded d q = tl q @ [d]"
  by (cases q) (simp_all add: push_bounded_def Let_def MAX_QUEUE_SIZE_def)

lemma push_bounded_room:
  "length q < MAX_QUEUE_SIZE \<Longrightarrow> push_bounded d q = q @ [d]"
  by (simp add: push_bounded_def Let_def)

lemma length_confirm_mem: "length (confirm_mem cid q) = length q"
  by (induction q) simp_all

lemma saweria_mem_bounded:
  assumes "length (donationQueue s) \<le> MAX_QUEUE_SIZE"
  shows "length (donationQueue (snd (saweria_mem e data s))) \<le> MAX_QUEUE_SIZE"
proof (cases "extract_fields data")
  case (Inl err)
  then show ?thesis using assms by (simp add: saweria_mem_def)
next
  case (Inr r)
  obtain u a m where "r = (u, a, m)" by (cases r)
  with Inr have "extract_fields data = Inr (u, a, m)" by simp
  from saweria_mem_queue [OF this] show ?thesis
    using assms by (simp add: length_push_bounded)
qed

lemma step_mem_bounded:
  assumes "length (donationQueue s) \<le> MAX_QUEUE_SIZE"
  shows "length (donationQueue (step_mem s r)) \<le> MAX_QUEUE_SIZE"
proof (cases r)
  case (Saweria e data)
  then show ?thesis using assms by (simp add: saweria_mem_bounded)
next
  case (RobloxCheck c)
  then show ?thesis
    using assms
    by (simp add: roblox_check_mem_def Let_def length_confirm_mem split: option.splits)
next
  case (Cleanup now)
  have "length (donationQueue (cleanupOldDonations_mem now s)) \<le> length (donationQueue s)"
    by (simp add: cleanupOldDonations_mem_def)
  with assms Cleanup show ?thesis by simp
next
  case Clear
  then show ?thesis by (simp add: clear_mem_def)
qed

lemma foldl_step_mem_bounded:
  "length (donationQueue s) \<le> MAX_QUEUE_SIZE \<Longrightarrow>
     length (donationQueue (foldl step_mem s rs)) \<le> MAX_QUEUE_SIZE"
  by (induction rs arbitrary: s) (simp_all add: step_mem_bounded)

lemma run_mem_bounded: "length (donationQueue (run_mem rs)) \<le> MAX_QUEUE_SIZE"
  unfolding run_mem_def by (rule foldl_step_mem_bounded) (simp add: init_mem_def)

text \<open>
  C8: in the in-memory variant, after any sequence of requests from the start of the
  process the queue holds at most 20 entries, and it still does after a further ingest,
  whether that ingest answers 200 or 400. An ingest into a queue of 20 entries drops the
  entry at the front, whatever its delivered flag, and appends the new donation.
\<close>

theorem queue_holds_at_most_20:
  "length (donationQueue (run_mem rs)) \<le> 20
   \<and> length (donationQueue (snd (saweria_mem e data (run_mem rs)))) \<le> 20
   \<and> (length (donationQueue s) = 20 \<and> extract_fields data = Inr (u, a, m) \<longrightarrow>
        donationQueue (snd (saweria_mem e data s))
          = tl (donationQueue s) @ [new_donation e u a m])
   \<and> (length (donationQueue s) < 20 \<and> extract_fields data = Inr (u, a, m) \<longrightarrow>
        donationQueue (snd (saweria_mem e data s)) = donationQueue s @ [new_donation e u a m])"
  using run_mem_bounded [of rs] saweria_mem_bounded [OF run_mem_bounded, of e data rs]
  by (auto simp: saweria_mem_queue push_bounded_full push_bounded_room MAX_QUEUE_SIZE_def)

theorem queue_holds_at_most_20_witness:
  "length (donationQueue \<lparr>donationQueue =
       \<lparr>username = JStr ''Ani'', display_name = JStr ''Ani'', id_of = ''1-a'', amount = 1,
        message = JStr [], timestamp = 1, received_at = 1, delivered = False\<rparr>
       # replicate 19 \<lparr>username = JStr ''Ani'', display_name = JStr ''Ani'', id_of = ''2-b'',
        amount = 2, message = JStr [], timestamp = 2, received_at = 2, delivered = True\<rparr>,
       topSpenders = []\<rparr>) = 20
   \<and> extract_fields (JObj [(''name'', JStr ''Budi''), (''amount'', JStr ''5'')])
       = Inr (JStr ''Budi'', 5, JStr [])
   \<and> donationQueue (snd (saweria_mem
        \<lparr>id_time = 7, id_random = ''k3'', iso_time = 7, recv_time = 7\<rparr>
        (JObj [(''name'', JStr ''Budi''), (''amount'', JStr ''5'')])
        \<lparr>donationQueue =
          \<lparr>username = JStr ''Ani'', display_name = JStr ''Ani'', id_of = ''1-a'', amount = 1,
           message = JStr [], timestamp = 1, received_at = 1, delivered = False\<rparr>
          # replicate 19 \<lparr>username = JStr ''Ani'', display_name = JStr ''Ani'', id_of = ''2-b'',
           amount = 2, message = JStr [], timestamp = 2, received_at = 2, delivered = True\<rparr>,
          topSpenders = []\<rparr>))
     = replicate 19 \<lparr>username = JStr ''Ani'', display_name = JStr ''Ani'', id_of = ''2-b'',
           amount = 2, message = JStr [], timestamp = 2, received_at = 2, delivered = True\<rparr>
       @ [new_donation \<lparr>id_time = 7, id_random = ''k3'', iso_time = 7, recv_time = 7\<rparr>
            (JStr ''Budi'') 5 (JStr [])]
   \<and> donationQueue (snd (saweria_mem
        \<lparr>id_time = 7, id_random = ''k3'', iso_time = 7, recv_time = 7\<rparr>
        (JObj [(''name'', JStr ''Budi''), (''amount'', JStr ''5'')]) init_mem))
     = [new_donation \<lparr>id_time = 7, id_random = ''k3'', iso_time = 7, recv_time = 7\<rparr>
            (JStr ''Budi'') 5 (JStr [])]"
proof -
  have x: "extract_fields (JObj [(''name'', JStr ''Budi''), (''amount'', JStr ''5'')])
       = Inr (JStr ''Budi'', 5, JStr [])"
    by (simp add: extract_fields_def extract_amount_def extract_username_def
        extract_message_def js_or_def or_parseInt_def parse_defs)
  show ?thesis
    using x
      queue_holds_at_most_20 [of "[]"
        "\<lparr>id_time = 7, id_random = ''k3'', iso_time = 7, recv_time = 7\<rparr>"
        "JObj [(''name'', JStr ''Budi''), (''amount'', JStr ''5'')]"
        "\<lparr>donationQueue =
          \<lparr>username = JStr ''Ani'', display_name = JStr ''Ani'', id_of = ''1-a'', amount = 1,
           message = JStr [], timestamp = 1, received_at = 1, delivered = False\<rparr>
          # replicate 19 \<lparr>username = JStr ''Ani'', display_name = JStr ''Ani'', id_of = ''2-b'',
           amount = 2, message = JStr [], timestamp = 2, received_at = 2, delivered = True\<rparr>,
          topSpenders = []\<rparr>" "JStr ''Budi''" 5 "JStr []"]
      queue_holds_at_most_20 [of "[]"
        "\<lparr>id_time = 7, id_random = ''k3'', iso_time = 7, recv_time = 7\<rparr>"
        "JObj [(''name'', JStr ''Budi''), (''amount'', JStr ''5'')]" init_mem
        "JStr ''Budi''" 5 "JStr []"]
    by (simp add: init_mem_def)
qed

section \<open>Confirming twice, or an unknown id\<close>











section \<open>Which donation a poll returns\<close>

lemma find_first:
  "find P q = Some x \<Longrightarrow> \<exists>xs ys. q = xs @ x # ys \<and> list_all (\<lambda>y. \<not> P y) xs \<and> P x"
proof (induction q)
  case Nil
  then show ?case by simp
next
  case (Cons y q)
  show ?case
  proof (cases "P y")
    case True
    with Cons.prems have "y = x" by simp
    with True have "y # q = [] @ x # q \<and> list_all (\<lambda>y. \<not> P y) [] \<and> P x" by simp
    then show ?thesis by blast
  next
    case False
    with Cons obtain xs ys where "q = xs @ x # ys" "list_all (\<lambda>y. \<not> P y) xs" "P x" by auto
    with False have "y # q = (y # xs) @ x # ys \<and> list_all (\<lambda>y. \<not> P y) (y # xs) \<and> P x"
      by simp
    then show ?thesis by blast
  qed
qed

lemma first_undelivered_min:
  assumes "sorted (map received_at (xs @ x # ys))" and "list_all delivered xs"
  shows "list_all (\<lambda>y. delivered y \<or> received_at x \<le> received_at y) (xs @ x # ys)"
  using assms by (auto simp: list_all_iff sorted_append)

lemma getUndeliveredDonation_None:
  "getUndeliveredDonation d = None \<Longrightarrow> list_all delivered (donations d)"
proof -
  assume "getUndeliveredDonation d = None"
  then have "sort_key received_at (filter (\<lambda>r. \<not> delivered r) (donations d)) = []"
    by (simp add: getUndeliveredDonation_def split: list.splits)
  then have "set (sort_key received_at (filter (\<lambda>r. \<not> delivered r) (donations d))) = {}"
    by simp
  then show ?thesis by (simp add: list_all_iff)
qed

lemma getUndeliveredDonation_Some:
  assumes "getUndeliveredDonation d = Some x"
  shows "x \<in> set (donations d) \<and> \<not> delivered x
       \<and> list_all (\<lambda>y. delivered y \<or> received_at x \<le> received_at y) (donations d)"
proof -
  let ?us = "filter (\<lambda>r. \<not> delivered r) (donations d)"
  from assms obtain rs where s: "sort_key received_at ?us = x # rs"
    by (auto simp: getUndeliveredDonation_def split: list.splits)
  have "x \<in> set (sort_key received_at ?us)" by (simp add: s)
  then have m: "x \<in> set (donations d) \<and> \<not> delivered x" by simp
  have "sorted (map received_at (sort_key received_at ?us))" by (rule sorted_sort_key)
  then have "\<forall>y\<in>set (x # rs). received_at x \<le> received_at y" by (simp add: s)
  then have "\<forall>y\<in>set (sort_key received_at ?us). received_at x \<le> received_at y"
    by (simp only: s)
  then have "\<forall>y\<in>set (donations d). delivered y \<or> received_at x \<le> received_at y" by auto
  with m show ?thesis by (simp add: list_all_iff)
qed

lemma map_received_at_confirm_mem:
  "map received_at (confirm_mem cid q) = map received_at q"
  by (induction q) simp_all

lemma ingest_times_snoc:
  "ingest_times (rs @ [r]) =
     ingest_times rs @ (case r of Saweria e data \<Rightarrow> [recv_time e] | _ \<Rightarrow> [])"
  by (induction rs rule: ingest_times.induct) (simp_all split: request.splits)

lemma push_bounded_times:
  assumes "sorted (map received_at q)" and "\<forall>t\<in>set (map received_at q). t \<le> received_at x"
  shows "sorted (map received_at (push_bounded x q))
       \<and> set (map received_at (push_bounded x q)) \<subseteq> insert (received_at x) (set (map received_at q))"
proof -
  have a: "sorted (map received_at (q @ [x]))"
    using assms by (simp add: sorted_append)
  have b: "sorted (map received_at (tl (q @ [x])))"
    using sorted_tl [OF a] by (simp add: map_tl)
  have c: "set (tl (q @ [x])) \<subseteq> set (q @ [x])"
    by (cases "q @ [x]") auto
  show ?thesis
    using a b c by (auto simp: push_bounded_def Let_def)
qed

lemma run_mem_snoc: "run_mem (rs @ [r]) = step_mem (run_mem rs) r"
  by (simp add: run_mem_def)

lemma chronological_queue:
  "sorted (ingest_times rs) \<Longrightarrow>
     sorted (map received_at (donationQueue (run_mem rs)))
     \<and> set (map received_at (donationQueue (run_mem rs))) \<subseteq> set (ingest_times rs)"
proof (induction rs rule: rev_induct)
  case Nil
  show ?case by (simp add: run_mem_def init_mem_def)
next
  case (snoc r rs)
  from snoc.prems have srt: "sorted (ingest_times rs)"
    by (simp add: ingest_times_snoc sorted_append)
  note ih = snoc.IH [OF srt]
  let ?q = "donationQueue (run_mem rs)"
  show ?case
  proof (cases r)
    case (Saweria e data)
    from snoc.prems have le: "\<forall>t\<in>set (ingest_times rs). t \<le> recv_time e"
      by (simp add: ingest_times_snoc Saweria sorted_append)
    show ?thesis
    proof (cases "extract_fields data")
      case (Inl err)
      then show ?thesis
        using ih by (auto simp: run_mem_snoc Saweria saweria_mem_def ingest_times_snoc)
    next
      case (Inr x)
      obtain u a m where "x = (u, a, m)" by (cases x)
      with Inr have x: "extract_fields data = Inr (u, a, m)" by simp
      have r: "received_at (new_donation e u a m) = recv_time e"
        by (simp add: new_donation_def)
      have "\<forall>t\<in>set (map received_at ?q). t \<le> received_at (new_donation e u a m)"
        using ih le r by auto
      from push_bounded_times [OF conjunct1 [OF ih] this] show ?thesis
        using ih r
        by (auto simp: run_mem_snoc Saweria saweria_mem_queue [OF x] ingest_times_snoc)
    qed
  next
    case (RobloxCheck c)
    then show ?thesis
      using ih
      by (auto simp: run_mem_snoc roblox_check_mem_def Let_def ingest_times_snoc
          map_received_at_confirm_mem split: option.splits
          simp del: set_map)
  next
    case (Cleanup now)
    have "sorted (map received_at (donationQueue (cleanupOldDonations_mem now (run_mem rs))))"
      using conjunct1 [OF ih] by (simp add: cleanupOldDonations_mem_def sorted_filter)
    moreover have "set (map received_at (donationQueue (cleanupOldDonations_mem now (run_mem rs))))
        \<subseteq> set (map received_at ?q)"
      by (auto simp: cleanupOldDonations_mem_def)
    ultimately show ?thesis
      using ih Cleanup by (auto simp: run_mem_snoc ingest_times_snoc)
  next
    case Clear
    then show ?thesis by (simp add: run_mem_snoc clear_mem_def)
  qed
qed

text \<open>
  C6 as written says that, in every store state, a poll returns the undelivered donation
  with the smallest \<open>received_at\<close>. The in-memory handler returns the first undelivered
  donation of the queue and never compares \<open>received_at\<close>. After two ingests of which
  the second read an earlier clock value than the first (100, then 50), the poll returns
  the donation received at 100 while the one received at 50 is undelivered.
\<close>

theorem poll_queue_order_counterexample:
  "donationQueue (run_mem
      [Saweria \<lparr>id_time = 100, id_random = ''aa'', iso_time = 100, recv_time = 100\<rparr>
         (JObj [(''name'', JStr ''Ani'')]),
       Saweria \<lparr>id_time = 50, id_random = ''bb'', iso_time = 50, recv_time = 50\<rparr>
         (JObj [(''name'', JStr ''Budi'')])])
     = [\<lparr>username = JStr ''Ani'', display_name = JStr ''Ani'', id_of = ''100-aa'', amount = 0,
         message = JStr [], timestamp = 100, received_at = 100, delivered = False\<rparr>,
        \<lparr>username = JStr ''Budi'', display_name = JStr ''Budi'', id_of = ''50-bb'', amount = 0,
         message = JStr [], timestamp = 50, received_at = 50, delivered = False\<rparr>]
   \<and> fst (roblox_check_mem None (run_mem
      [Saweria \<lparr>id_time = 100, id_random = ''aa'', iso_time = 100, recv_time = 100\<rparr>
         (JObj [(''name'', JStr ''Ani'')]),
       Saweria \<lparr>id_time = 50, id_random = ''bb'', iso_time = 50, recv_time = 50\<rparr>
         (JObj [(''name'', JStr ''Budi'')])]))
     = Poll200 (Some \<lparr>username = JStr ''Ani'', display_name = JStr ''Ani'', id_of = ''100-aa'',
         amount = 0, message = JStr [], timestamp = 100, received_at = 100,
         delivered = False\<rparr>) 2"
  by (simp add: run_mem_def roblox_check_mem_def saweria_mem_def extract_fields_def
      extract_amount_def extract_username_def extract_message_def js_or_def or_parseInt_def
      parse_defs Let_def new_donation_def init_mem_def generateDonationId_def
      string_of_nat.simps undelivered_count_def push_bounded_def MAX_QUEUE_SIZE_def
      update_top_mem_def top_lookup_def object_prototype_keys_def)

text \<open>
  C6, as the handlers have it. In the SQLite variant a poll returns, for every store, an
  undelivered donation whose \<open>received_at\<close> is smallest among the undelivered ones, or
  null when there is none. In the in-memory variant a poll returns the first undelivered
  donation in queue order, or null when there is none. That donation has the smallest
  \<open>received_at\<close> whenever the queue is in \<open>received_at\<close> order, which it is after
  every sequence of requests whose ingests read clock values that never decrease.
\<close>

theorem poll_returns_oldest_undelivered:
  "(case fst (roblox_check_sql c d) of
      Poll500 err \<Rightarrow> False
    | Poll200 None n \<Rightarrow> list_all delivered (donations (snd (roblox_check_sql c d)))
    | Poll200 (Some x) n \<Rightarrow>
        x \<in> set (donations (snd (roblox_check_sql c d))) \<and> \<not> delivered x
        \<and> list_all (\<lambda>y. delivered y \<or> received_at x \<le> received_at y)
             (donations (snd (roblox_check_sql c d))))
   \<and> (case fst (roblox_check_mem c s) of
      Poll500 err \<Rightarrow> False
    | Poll200 None n \<Rightarrow> list_all delivered (donationQueue (snd (roblox_check_mem c s)))
    | Poll200 (Some x) n \<Rightarrow>
        (\<exists>xs ys. donationQueue (snd (roblox_check_mem c s)) = xs @ x # ys
                  \<and> list_all delivered xs)
        \<and> \<not> delivered x
        \<and> (sorted (map received_at (donationQueue (snd (roblox_check_mem c s)))) \<longrightarrow>
             list_all (\<lambda>y. delivered y \<or> received_at x \<le> received_at y)
               (donationQueue (snd (roblox_check_mem c s)))))
   \<and> (sorted (ingest_times rs) \<longrightarrow> sorted (map received_at (donationQueue (run_mem rs))))"
proof (intro conjI)
  let ?d = "snd (roblox_check_sql c d)"
  have f: "fst (roblox_check_sql c d)
      = Poll200 (getUndeliveredDonation ?d) (undelivered_count (donations ?d))"
    by (simp add: roblox_check_sql_def Let_def)
  show "case fst (roblox_check_sql c d) of
      Poll500 err \<Rightarrow> False
    | Poll200 None n \<Rightarrow> list_all delivered (donations ?d)
    | Poll200 (Some x) n \<Rightarrow>
        x \<in> set (donations ?d) \<and> \<not> delivered x
        \<and> list_all (\<lambda>y. delivered y \<or> received_at x \<le> received_at y) (donations ?d)"
    unfolding f
    using getUndeliveredDonation_None [of ?d] getUndeliveredDonation_Some [of ?d]
    by (cases "getUndeliveredDonation ?d") simp_all
next
  let ?q = "donationQueue (snd (roblox_check_mem c s))"
  have f: "fst (roblox_check_mem c s)
      = Poll200 (find (\<lambda>x. \<not> delivered x) ?q) (undelivered_count ?q)"
    by (simp add: roblox_check_mem_def Let_def)
  show "case fst (roblox_check_mem c s) of
      Poll500 err \<Rightarrow> False
    | Poll200 None n \<Rightarrow> list_all delivered ?q
    | Poll200 (Some x) n \<Rightarrow>
        (\<exists>xs ys. ?q = xs @ x # ys \<and> list_all delivered xs)
        \<and> \<not> delivered x
        \<and> (sorted (map received_at ?q) \<longrightarrow>
             list_all (\<lambda>y. delivered y \<or> received_at x \<le> received_at y) ?q)"
  proof (cases "find (\<lambda>x. \<not> delivered x) ?q")
    case None
    then have "list_all delivered ?q" by (simp add: find_None_iff list_all_iff)
    with None show ?thesis by (simp add: f)
  next
    case (Some x)
    from find_first [OF Some] obtain xs ys
      where q: "?q = xs @ x # ys" and xs: "list_all delivered xs" and x: "\<not> delivered x"
      by auto
    have "sorted (map received_at ?q) \<longrightarrow>
             list_all (\<lambda>y. delivered y \<or> received_at x \<le> received_at y) ?q"
      using first_undelivered_min [of xs x ys] xs by (simp only: q) blast
    with q xs x Some show ?thesis by (simp only: f) auto
  qed
next
  show "sorted (ingest_times rs) \<longrightarrow> sorted (map received_at (donationQueue (run_mem rs)))"
    using chronological_queue by blast
qed

theorem poll_returns_oldest_undelivered_witness:
  "fst (roblox_check_sql None
      \<lparr>donations =
         [\<lparr>username = JStr ''Ani'', display_name = JStr ''Ani'', id_of = ''300-a'', amount = 1,
           message = JStr [], timestamp = 300, received_at = 300, delivered = False\<rparr>,
          \<lparr>username = JStr ''Budi'', display_name = JStr ''Budi'', id_of = ''100-b'', amount = 2,
           message = JStr [], timestamp = 100, received_at = 100, delivered = False\<rparr>,
          \<lparr>username = JStr ''Cici'', display_name = JStr ''Cici'', id_of = ''50-c'', amount = 3,
           message = JStr [], timestamp = 50, received_at = 50, delivered = True\<rparr>],
       top_spenders = []\<rparr>)
    = Poll200 (Some \<lparr>username = JStr ''Budi'', display_name = JStr ''Budi'', id_of = ''100-b'',
           amount = 2, message = JStr [], timestamp = 100, received_at = 100,
           delivered = False\<rparr>) 2
   \<and> sorted (map received_at (donationQueue (snd (roblox_check_mem (Some ''1-a'')
      \<lparr>donationQueue =
         [\<lparr>username = JStr ''Ani'', display_name = JStr ''Ani'', id_of = ''1-a'', amount = 1,
           message = JStr [], timestamp = 1, received_at = 1, delivered = False\<rparr>,
          \<lparr>username = JStr ''Budi'', display_name = JStr ''Budi'', id_of = ''2-b'', amount = 2,
           message = JStr [], timestamp = 2, received_at = 2, delivered = False\<rparr>,
          \<lparr>username = JStr ''Cici'', display_name = JStr ''Cici'', id_of = ''3-c'', amount = 3,
           message = JStr [], timestamp = 3, received_at = 3, delivered = False\<rparr>],
       topSpenders = []\<rparr>))))
   \<and> fst (roblox_check_mem (Some ''1-a'')
      \<lparr>donationQueue =
         [\<lparr>username = JStr ''Ani'', display_name = JStr ''Ani'', id_of = ''1-a'', amount = 1,
           message = JStr [], timestamp = 1, received_at = 1, delivered = False\<rparr>,
          \<lparr>username = JStr ''Budi'', display_name = JStr ''Budi'', id_of = ''2-b'', amount = 2,
           message = JStr [], timestamp = 2, received_at = 2, delivered = False\<rparr>,
          \<lparr>username = JStr ''Cici'', display_name = JStr ''Cici'', id_of = ''3-c'', amount = 3,
           message = JStr [], timestamp = 3, received_at = 3, delivered = False\<rparr>],
       topSpenders = []\<rparr>)
    = Poll200 (Some \<lparr>username = JStr ''Budi'', display_name = JStr ''Budi'', id_of = ''2-b'',
           amount = 2, message = JStr [], timestamp = 2, received_at = 2,
           delivered = False\<rparr>) 2
   \<and> sorted (ingest_times
      [Saweria \<lparr>id_time = 50, id_random = ''aa'', iso_time = 50, recv_time = 50\<rparr>
         (JObj [(''name'', JStr ''Ani'')]),
       RobloxCheck None,
       Saweria \<lparr>id_time = 100, id_random = ''bb'', iso_time = 100, recv_time = 100\<rparr>
         (JObj [(''name'', JStr ''Budi'')])])
   \<and> sorted (map received_at (donationQueue (run_mem
      [Saweria \<lparr>id_time = 50, id_random = ''aa'', iso_time = 50, recv_time = 50\<rparr>
         (JObj [(''name'', JStr ''Ani'')]),
       RobloxCheck None,
       Saweria \<lparr>id_time = 100, id_random = ''bb'', iso_time = 100, recv_time = 100\<rparr>
         (JObj [(''name'', JStr ''Budi'')])])))"
proof -
  let ?d = "\<lparr>donations =
         [\<lparr>username = JStr ''Ani'', display_name = JStr ''Ani'', id_of = ''300-a'', amount = 1,
           message = JStr [], timestamp = 300, received_at = 300, delivered = False\<rparr>,
          \<lparr>username = JStr ''Budi'', display_name = JStr ''Budi'', id_of = ''100-b'', amount = 2,
           message = JStr [], timestamp = 100, received_at = 100, delivered = False\<rparr>,
          \<lparr>username = JStr ''Cici'', display_name = JStr ''Cici'', id_of = ''50-c'', amount = 3,
           message = JStr [], timestamp = 50, received_at = 50, delivered = True\<rparr>],
       top_spenders = []\<rparr>"
  let ?s = "\<lparr>donationQueue =
         [\<lparr>username = JStr ''Ani'', display_name = JStr ''Ani'', id_of = ''1-a'', amount = 1,
           message = JStr [], timestamp = 1, received_at = 1, delivered = False\<rparr>,
          \<lparr>username = JStr ''Budi'', display_name = JStr ''Budi'', id_of = ''2-b'', amount = 2,
           message = JStr [], timestamp = 2, received_at = 2, delivered = False\<rparr>,
          \<lparr>username = JStr ''Cici'', display_name = JStr ''Cici'', id_of = ''3-c'', amount = 3,
           message = JStr [], timestamp = 3, received_at = 3, delivered = False\<rparr>],
       topSpenders = []\<rparr>"
  let ?rs = "[Saweria \<lparr>id_time = 50, id_random = ''aa'', iso_time = 50, recv_time = 50\<rparr>
         (JObj [(''name'', JStr ''Ani'')]),
       RobloxCheck None,
       Saweria \<lparr>id_time = 100, id_random = ''bb'', iso_time = 100, recv_time = 100\<rparr>
         (JObj [(''name'', JStr ''Budi'')])]"
  have 1: "fst (roblox_check_sql None ?d)
    = Poll200 (Some \<lparr>username = JStr ''Budi'', display_name = JStr ''Budi'', id_of = ''100-b'',
           amount = 2, message = JStr [], timestamp = 100, received_at = 100,
           delivered = False\<rparr>) 2"
    by (simp add: roblox_check_sql_def getUndeliveredDonation_def undelivered_count_def)
  have 2: "sorted (map received_at (donationQueue (snd (roblox_check_mem (Some ''1-a'') ?s))))"
    by (simp add: roblox_check_mem_def)
  have 3: "fst (roblox_check_mem (Some ''1-a'') ?s)
    = Poll200 (Some \<lparr>username = JStr ''Budi'', display_name = JStr ''Budi'', id_of = ''2-b'',
           amount = 2, message = JStr [], timestamp = 2, received_at = 2,
           delivered = False\<rparr>) 2"
    by (simp add: roblox_check_mem_def undelivered_count_def)
  have 4: "sorted (ingest_times ?rs)" by simp
  from poll_returns_oldest_undelivered [of "Some ''1-a''" ?d ?s ?rs] 4
  have 5: "sorted (map received_at (donationQueue (run_mem ?rs)))" by blast
  show ?thesis using 1 2 3 4 5 by blast
qed

end
